theory Spec2Isabelle
  imports Main "HOL-Library.Log_Nat" "HOL-Library.List_Lexorder"
begin

section \<open>Text\<close>

text \<open>
  A Python \<open>str\<close> is a sequence of Unicode code points.  A code point is a natural
  number; a string is a list of them.  String constants of the source are written with
  \<open>str\<close>, which maps each (ASCII) character of an Isabelle literal to its code point.
  Comparison of texts (\<open><\<close>, \<open>\<le>\<close>) is the lexicographic order on code points, as in
  Python.
\<close>

type_synonym codepoint = nat
type_synonym pystr = "codepoint list"

definition str :: "string \<Rightarrow> pystr" where
  "str s = map of_char s"

text \<open>\<^verbatim>\<open>sub in s\<close> on strings: \<open>sub\<close> occurs in \<open>s\<close> as a contiguous piece.\<close>

fun starts_with :: "pystr \<Rightarrow> pystr \<Rightarrow> bool" where
  "starts_with s [] = True"
| "starts_with [] (p # ps) = False"
| "starts_with (c # cs) (p # ps) = (c = p \<and> starts_with cs ps)"

fun py_in :: "pystr \<Rightarrow> pystr \<Rightarrow> bool" where
  "py_in sub [] = (sub = [])"
| "py_in sub (c # cs) = (starts_with (c # cs) sub \<or> py_in sub cs)"

text \<open>\<^verbatim>\<open>s.replace(old, new)\<close> for a one-character \<open>old\<close>.\<close>

definition replace_char :: "codepoint \<Rightarrow> pystr \<Rightarrow> pystr \<Rightarrow> pystr" where
  "replace_char old new s = concat (map (\<lambda>c. if c = old then new else [c]) s)"

text \<open>
  \<^verbatim>\<open>list(set(xs))\<close>: the distinct elements of \<open>xs\<close>.  Python leaves the order of the
  result unspecified; the model fixes one order, and no statement below depends on it.
\<close>

definition list_set :: "'a list \<Rightarrow> 'a list" where
  "list_set xs = remdups xs"

section \<open>The classifier\<close>

text \<open>
  \<open>analysis_data\<close> is a dictionary from field names to lists of strings.
  \<^verbatim>\<open>analysis_data.get(k)\<close> is the lookup; used as a condition it is true when the key
  is present with a non-empty list.
\<close>

type_synonym analysis_data = "pystr \<rightharpoonup> pystr list"

definition truthy :: "pystr list option \<Rightarrow> bool" where
  "truthy v = (case v of None \<Rightarrow> False | Some l \<Rightarrow> l \<noteq> [])"

definition items :: "pystr list option \<Rightarrow> pystr list" where
  "items v = (case v of None \<Rightarrow> [] | Some l \<Rightarrow> l)"

definition determine_change_type :: "analysis_data \<Rightarrow> pystr" where
  "determine_change_type analysis_data =
    (if truthy (analysis_data (str ''hooks'')) \<and>
        list_ex (\<lambda>h. py_in (str ''useState'') h \<or> py_in (str ''useReducer'') h)
                (items (analysis_data (str ''hooks'')))
     then str ''state_management''
     else if truthy (analysis_data (str ''hooks'')) \<and>
        list_ex (\<lambda>h. py_in (str ''useEffect'') h) (items (analysis_data (str ''hooks'')))
     then str ''side_effects''
     else if truthy (analysis_data (str ''events'')) then str ''event_handling''
     else if truthy (analysis_data (str ''styling'')) then str ''styling''
     else if truthy (analysis_data (str ''components'')) then str ''component_structure''
     else str ''general_coding'')"

section \<open>Regular expressions\<close>

text \<open>
  The extractors use Python's \<open>re\<close> module on \<open>str\<close> patterns.  This section models the
  fragment of it that the source's patterns use: sequences of single-character
  classes, greedy \<open>*\<close> and \<open>+\<close> over a class, and one capturing group, matched by
  backtracking, and \<^verbatim>\<open>re.finditer\<close>.

  For a \<open>str\<close> pattern \<^verbatim>\<open>\w\<close> is \<open>[a-zA-Z0-9_]\<close> plus every alphanumeric character of
  Unicode, and \<^verbatim>\<open>\s\<close> is the ASCII white space (code points 9 to 13, 28 to 31 and 32)
  plus the other white space of Unicode.  The classification of the code points from
  128 on is a table of the Python runtime; it is a parameter of the model.
\<close>

record unicode_db =
  uni_alnum :: "codepoint \<Rightarrow> bool"
  uni_space :: "codepoint \<Rightarrow> bool"

definition is_word :: "unicode_db \<Rightarrow> codepoint \<Rightarrow> bool" where
  "is_word U c =
     (if c < 128 then (48 \<le> c \<and> c \<le> 57) \<or> (65 \<le> c \<and> c \<le> 90) \<or> (97 \<le> c \<and> c \<le> 122) \<or> c = 95
      else uni_alnum U c)"

definition is_space :: "unicode_db \<Rightarrow> codepoint \<Rightarrow> bool" where
  "is_space U c =
     (if c < 128 then (9 \<le> c \<and> c \<le> 13) \<or> (28 \<le> c \<and> c \<le> 31) \<or> c = 32
      else uni_space U c)"

text \<open>A table that classifies no code point from 128 on; it serves for ASCII inputs.\<close>

definition ascii_db :: unicode_db where
  "ascii_db = \<lparr>uni_alnum = (\<lambda>c. False), uni_space = (\<lambda>c. False)\<rparr>"

datatype atom = Chr codepoint | Range codepoint codepoint | Word | Space

datatype cset = In "atom list" | NotIn "atom list" | Dot

fun in_atom :: "unicode_db \<Rightarrow> atom \<Rightarrow> codepoint \<Rightarrow> bool" where
  "in_atom U (Chr a) c = (c = a)"
| "in_atom U (Range lo hi) c = (lo \<le> c \<and> c \<le> hi)"
| "in_atom U Word c = is_word U c"
| "in_atom U Space c = is_space U c"

text \<open>\<open>Dot\<close> is \<^verbatim>\<open>.\<close> without the DOTALL flag: every character but the newline.\<close>

fun in_cset :: "unicode_db \<Rightarrow> cset \<Rightarrow> codepoint \<Rightarrow> bool" where
  "in_cset U (In as) c = list_ex (\<lambda>a. in_atom U a c) as"
| "in_cset U (NotIn as) c = (\<not> list_ex (\<lambda>a. in_atom U a c) as)"
| "in_cset U Dot c = (c \<noteq> 10)"

datatype item = One cset | Star cset | Plus cset | GroupOpen | GroupClose

type_synonym span = "nat \<times> nat"

text \<open>
  \<open>rmatch U p s pos gs g\<close> matches the pattern \<open>p\<close> against \<open>s\<close>, the rest of the input
  from position \<open>pos\<close> on; \<open>gs\<close> is where group 1 was opened and \<open>g\<close> its span once closed.
  The result is the end of the match and the span of group 1.  A greedy repetition
  first takes one more character and tries the rest of the pattern from there, and only
  when that fails goes on with the rest of the pattern from here: this is the order in
  which a backtracking matcher tries the repetition counts, longest first.
\<close>

fun rmatch :: "unicode_db \<Rightarrow> item list \<Rightarrow> pystr \<Rightarrow> nat \<Rightarrow> nat \<Rightarrow> span option
                \<Rightarrow> (nat \<times> span option) option" where
  "rmatch U [] s pos gs g = Some (pos, g)"
| "rmatch U (GroupOpen # p) s pos gs g = rmatch U p s pos pos g"
| "rmatch U (GroupClose # p) s pos gs g = rmatch U p s pos gs (Some (gs, pos))"
| "rmatch U (One c # p) [] pos gs g = None"
| "rmatch U (One c # p) (x # xs) pos gs g =
     (if in_cset U c x then rmatch U p xs (Suc pos) gs g else None)"
| "rmatch U (Plus c # p) [] pos gs g = None"
| "rmatch U (Plus c # p) (x # xs) pos gs g =
     (if in_cset U c x then rmatch U (Star c # p) xs (Suc pos) gs g else None)"
| "rmatch U (Star c # p) [] pos gs g = rmatch U p [] pos gs g"
| "rmatch U (Star c # p) (x # xs) pos gs g =
     (if in_cset U c x
      then (case rmatch U (Star c # p) xs (Suc pos) gs g of
              Some r \<Rightarrow> Some r
            | None \<Rightarrow> rmatch U p (x # xs) pos gs g)
      else rmatch U p (x # xs) pos gs g)"

record match =
  m_start :: nat
  m_end :: nat
  m_span1 :: "span option"

text \<open>
  \<^verbatim>\<open>re.finditer(pattern, code)\<close>: the non-overlapping matches from left to right.  The
  search tries the start positions in turn; after a match it resumes at the end of the
  match.  Every pattern of the source begins with a literal character, so a match is
  never empty and the end is beyond the start; the other branch only makes the scan
  advance for patterns the source does not have.
\<close>

function finditer_from :: "unicode_db \<Rightarrow> item list \<Rightarrow> pystr \<Rightarrow> nat \<Rightarrow> match list" where
  "finditer_from U p s pos =
     (if length s < pos then []
      else case rmatch U p (drop pos s) pos 0 None of
             None \<Rightarrow> finditer_from U p s (Suc pos)
           | Some (e, g) \<Rightarrow>
               \<lparr>m_start = pos, m_end = e, m_span1 = g\<rparr>
                 # finditer_from U p s (if pos < e then e else Suc pos))"
  by pat_completeness auto
termination
  by (relation "measure (\<lambda>(U, p, s, pos). Suc (length s) - pos)") auto

definition finditer :: "unicode_db \<Rightarrow> item list \<Rightarrow> pystr \<Rightarrow> match list" where
  "finditer U p s = finditer_from U p s 0"

definition slice :: "pystr \<Rightarrow> nat \<Rightarrow> nat \<Rightarrow> pystr" where
  "slice s a b = take (b - a) (drop a s)"

text \<open>\<^verbatim>\<open>match.group(0)\<close>, the matched text, and \<^verbatim>\<open>match.group(1)\<close>.\<close>

definition group0 :: "pystr \<Rightarrow> match \<Rightarrow> pystr" where
  "group0 s m = slice s (m_start m) (m_end m)"

definition group1 :: "pystr \<Rightarrow> match \<Rightarrow> pystr" where
  "group1 s m = (case m_span1 m of Some (a, b) \<Rightarrow> slice s a b | None \<Rightarrow> [])"

text \<open>The pieces of the source's patterns.\<close>

definition lit :: "string \<Rightarrow> item list" where
  "lit s = map (\<lambda>c. One (In [Chr (of_char c)])) s"

definition upper :: cset where
  "upper = In [Range (of_char CHR ''A'') (of_char CHR ''Z'')]"

definition quote :: cset where
  "quote = In [Chr (of_char CHR 0x22), Chr (of_char CHR 0x27)]"

definition class_chars :: cset where
  "class_chars = In [Word, Space, Chr (of_char CHR ''-'')]"

section \<open>Pattern extractors\<close>

text \<open>
  \<^verbatim>\<open>function\s+([A-Z]\w*)\<close>, \<^verbatim>\<open>const\s+([A-Z]\w*)\s*=.*=>\<close> and \<^verbatim>\<open>class\s+([A-Z]\w*)\<close>
\<close>

definition pat_function :: "item list" where
  "pat_function = lit ''function'' @ [Plus (In [Space]),
     GroupOpen, One upper, Star (In [Word]), GroupClose]"

definition pat_const :: "item list" where
  "pat_const = lit ''const'' @ [Plus (In [Space]),
     GroupOpen, One upper, Star (In [Word]), GroupClose,
     Star (In [Space])] @ lit ''='' @ [Star Dot] @ lit ''=>''"

definition pat_class :: "item list" where
  "pat_class = lit ''class'' @ [Plus (In [Space]),
     GroupOpen, One upper, Star (In [Word]), GroupClose]"

text \<open>\<^verbatim>\<open>use([A-Z]\w*)\<close> and \<^verbatim>\<open>on[A-Z]\w*\s*=\<close>\<close>

definition pat_hook :: "item list" where
  "pat_hook = lit ''use'' @ [GroupOpen, One upper, Star (In [Word]), GroupClose]"

definition pat_event :: "item list" where
  "pat_event = lit ''on'' @ [One upper, Star (In [Word]), Star (In [Space])] @ lit ''=''"

text \<open>
  \<^verbatim>\<open>className=["\']([\w\s\-]+)["\']\<close>, \<^verbatim>\<open>style=\{([^}]+)\}\<close> and
  \<^verbatim>\<open>class_name=["\']([\w\s\-]+)["\']\<close>
\<close>

definition pat_className :: "item list" where
  "pat_className = lit ''className='' @ [One quote,
     GroupOpen, Plus class_chars, GroupClose, One quote]"

definition pat_style :: "item list" where
  "pat_style = lit ''style={'' @
     [GroupOpen, Plus (NotIn [Chr (of_char CHR ''}'')]), GroupClose] @ lit ''}''"

definition pat_class_name :: "item list" where
  "pat_class_name = lit ''class_name='' @ [One quote,
     GroupOpen, Plus class_chars, GroupClose, One quote]"

text \<open>
  The loop \<^verbatim>\<open>for pattern in patterns: xs.extend([m.group(1) for m in re.finditer(pattern, code)])\<close>
\<close>

definition all_group1 :: "unicode_db \<Rightarrow> item list list \<Rightarrow> pystr \<Rightarrow> pystr list" where
  "all_group1 U patterns code =
     concat (map (\<lambda>p. map (group1 code) (finditer U p code)) patterns)"

definition extract_components :: "unicode_db \<Rightarrow> pystr \<Rightarrow> pystr \<Rightarrow> pystr list" where
  "extract_components U code language =
     (if language \<in> set [str ''javascript'', str ''typescript'']
      then list_set (all_group1 U [pat_function, pat_const] code)
      else if language = str ''python''
      then list_set (all_group1 U [pat_class] code)
      else [])"

definition extract_hooks :: "unicode_db \<Rightarrow> pystr \<Rightarrow> pystr \<Rightarrow> pystr list" where
  "extract_hooks U code language =
     (if language \<in> set [str ''javascript'', str ''typescript'']
      then list_set (map (group0 code) (finditer U pat_hook code))
      else [])"

definition extract_event_handlers :: "unicode_db \<Rightarrow> pystr \<Rightarrow> pystr \<Rightarrow> pystr list" where
  "extract_event_handlers U code language =
     (if language \<in> set [str ''javascript'', str ''typescript'']
      then list_set (map (\<lambda>m. replace_char (of_char CHR ''='') [] (group0 code m))
                         (finditer U pat_event code))
      else [])"

definition extract_styling :: "unicode_db \<Rightarrow> pystr \<Rightarrow> pystr \<Rightarrow> pystr list" where
  "extract_styling U code language =
     (if language \<in> set [str ''javascript'', str ''typescript'']
      then list_set (all_group1 U [pat_className, pat_style] code)
      else if language = str ''python''
      then list_set (all_group1 U [pat_class_name] code)
      else [])"

section \<open>Floating-point numbers\<close>

text \<open>
  A Python \<open>float\<close> is an IEEE 754 binary64 number.  A finite one is a rational number,
  and the model represents it by that rational.  An arithmetic operation returns the
  exact result rounded to the nearest number with a 53-bit significand, ties to the even
  significand; a decimal literal denotes the nearest such number.  Overflow and
  subnormal numbers are left out: every number of this program lies between \<open>2\<^sup>-\<^sup>3\<close> and
  \<open>2\<^sup>4\<^sup>1\<close> in magnitude (or is zero).
\<close>

definition pow2 :: "int \<Rightarrow> rat" where
  "pow2 e = (if 0 \<le> e then 2 ^ nat e else 1 / 2 ^ nat (- e))"

text \<open>The exponent \<open>e\<close> with \<open>2\<^sup>e \<le> x < 2\<^sup>e\<^sup>+\<^sup>1\<close>, for a positive \<open>x\<close>.\<close>

definition binade :: "rat \<Rightarrow> int" where
  "binade x =
     (if 1 \<le> x then bitlen \<lfloor>x\<rfloor> - 1
      else let k = bitlen \<lfloor>1 / x\<rfloor> - 1
           in if x * pow2 k = 1 then - k else - k - 1)"

definition round_half_even :: "rat \<Rightarrow> int" where
  "round_half_even q =
     (let f = \<lfloor>q\<rfloor>; r = q - of_int f
      in if r < 1 / 2 then f else if 1 / 2 < r then f + 1
         else if even f then f else f + 1)"

definition round_double :: "rat \<Rightarrow> rat" where
  "round_double x =
     (if x = 0 then 0
      else let e = binade \<bar>x\<bar>;
               m = round_half_even (\<bar>x\<bar> * pow2 (52 - e))
           in sgn x * of_int m * pow2 (e - 52))"

definition fadd :: "rat \<Rightarrow> rat \<Rightarrow> rat" where
  "fadd a b = round_double (a + b)"

definition fmul :: "rat \<Rightarrow> rat \<Rightarrow> rat" where
  "fmul a b = round_double (a * b)"

text \<open>The literals \<^verbatim>\<open>0.2\<close> and \<^verbatim>\<open>0.15\<close>; \<^verbatim>\<open>0.5\<close>, \<^verbatim>\<open>1.0\<close> and \<^verbatim>\<open>1000\<close> are exact.\<close>

definition lit_0_2 :: rat where
  "lit_0_2 = round_double (1 / 5)"

definition lit_0_15 :: rat where
  "lit_0_15 = round_double (3 / 20)"

section \<open>Content generator\<close>

definition calculate_confidence :: "analysis_data \<Rightarrow> rat" where
  "calculate_confidence analysis_data =
     (let confidence = 1 / 2;
          confidence = (if truthy (analysis_data (str ''components''))
                        then fadd confidence lit_0_2 else confidence);
          confidence = (if truthy (analysis_data (str ''hooks''))
                        then fadd confidence lit_0_2 else confidence);
          confidence = (if truthy (analysis_data (str ''events''))
                        then fadd confidence lit_0_15 else confidence);
          confidence = (if truthy (analysis_data (str ''styling''))
                        then fadd confidence lit_0_15 else confidence)
      in min 1 confidence)"

text \<open>
  The confidence as the specification words it, to compare with the source's function:
  the base 0.5 plus one increment for each non-empty extraction set (0.20 components,
  0.20 hooks, 0.15 events, 0.15 styling), clamped to 1.0.  \<open>spec_confidence\<close> takes
  the sum in floating-point arithmetic, \<open>decimal_confidence\<close> in exact arithmetic on
  the decimal numbers.  The arguments say which of the four sets are non-empty.
\<close>

definition spec_confidence :: "bool \<Rightarrow> bool \<Rightarrow> bool \<Rightarrow> bool \<Rightarrow> rat" where
  "spec_confidence c h e s =
     min 1 (foldl fadd (1 / 2)
              (map snd (filter fst
                 [(c, lit_0_2), (h, lit_0_2), (e, lit_0_15), (s, lit_0_15)])))"

definition decimal_confidence :: "bool \<Rightarrow> bool \<Rightarrow> bool \<Rightarrow> bool \<Rightarrow> rat" where
  "decimal_confidence c h e s =
     min 1 (1 / 2 + (if c then 1 / 5 else 0) + (if h then 1 / 5 else 0)
                  + (if e then 3 / 20 else 0) + (if s then 3 / 20 else 0))"

text \<open>
  The lookup tables.  \<^verbatim>\<open>table.get(change_type, default)\<close> is the lookup in an
  association list with a default.
\<close>

definition dict_get :: "('k \<times> 'v) list \<Rightarrow> 'k \<Rightarrow> 'v \<Rightarrow> 'v" where
  "dict_get table k dflt = (case map_of table k of None \<Rightarrow> dflt | Some v \<Rightarrow> v)"

definition element_map :: "(pystr \<times> pystr list) list" where
  "element_map =
    [(str ''state_management'',
        [str ''component-tree'', str ''data-flow'', str ''render-cycle'', str ''state-updates'']),
     (str ''side_effects'',
        [str ''lifecycle'', str ''api-calls'', str ''subscriptions'', str ''cleanup'']),
     (str ''event_handling'',
        [str ''user-interaction'', str ''state-updates'', str ''ui-changes'', str ''event-flow'']),
     (str ''styling'',
        [str ''visual-layout'', str ''css-rendering'', str ''responsive-design'',
         str ''style-cascade'']),
     (str ''component_structure'',
        [str ''component-hierarchy'', str ''props-flow'', str ''composition-pattern'']),
     (str ''general_coding'',
        [str ''code-structure'', str ''javascript-execution'', str ''logic-flow''])]"

definition get_affected_elements :: "pystr \<Rightarrow> pystr list" where
  "get_affected_elements change_type =
     dict_get element_map change_type [str ''general-concepts'']"

definition explanations :: "(pystr \<times> pystr) list" where
  "explanations =
    [(str ''state_management'',
        str ''State management creates reactive data that automatically triggers UI updates. Your component now manages dynamic data that flows through the render cycle.''),
     (str ''side_effects'',
        str ''Side effects handle interactions with external systems like APIs, timers, or subscriptions. This controls when your component interacts with the outside world.''),
     (str ''event_handling'',
        str ''Event handlers create interactive user experiences by responding to user actions like clicks, input changes, and form submissions.''),
     (str ''styling'',
        str ''Styling controls the visual presentation of your components. CSS classes and styles are applied during rendering to create the final appearance.''),
     (str ''component_structure'',
        str ''Components are the building blocks of React applications. They encapsulate logic, state, and presentation into reusable pieces.''),
     (str ''general_coding'',
        str ''This code affects how your application behaves and renders. Understanding these patterns helps build more effective software.'')]"

definition generate_explanation :: "pystr \<Rightarrow> analysis_data \<Rightarrow> pystr" where
  "generate_explanation change_type analysis_data =
     dict_get explanations change_type (dict_get explanations (str ''general_coding'') [])"

definition suggestions_map :: "(pystr \<times> pystr list) list" where
  "suggestions_map =
    [(str ''state_management'',
        [str ''Use functional updates for state: setState(prev => prev + 1)'',
         str ''Keep state minimal and flat'',
         str ''Consider useReducer for complex state logic'']),
     (str ''side_effects'',
        [str ''Always include dependencies in useEffect array'',
         str ''Clean up subscriptions in the return function'',
         str ''Use async/await carefully in useEffect'']),
     (str ''event_handling'',
        [str ''Use useCallback to optimize event handlers'',
         str ''Handle errors gracefully in event handlers'',
         str ''Prevent default behavior when necessary'']),
     (str ''styling'',
        [str ''Use CSS modules or styled-components for better maintainability'',
         str ''Follow consistent naming conventions'',
         str ''Consider responsive design patterns'']),
     (str ''component_structure'',
        [str ''Keep components small and focused'',
         str ''Extract reusable logic to custom hooks'',
         str ''Use proper prop validation'']),
     (str ''general_coding'',
        [str ''Write clean, readable code'',
         str ''Add meaningful comments'',
         str ''Follow established coding standards''])]"

definition get_suggestions :: "pystr \<Rightarrow> analysis_data \<Rightarrow> pystr list" where
  "get_suggestions change_type analysis_data =
     dict_get suggestions_map change_type (dict_get suggestions_map (str ''general_coding'') [])"

section \<open>Identifiers\<close>

text \<open>
  \<^verbatim>\<open>int(x)\<close> on a float truncates towards zero, and an f-string prints an integer in
  decimal.  \<open>millis t\<close> is \<^verbatim>\<open>int(time.time() * 1000)\<close> for the clock reading \<open>t\<close>.
\<close>

definition py_int :: "rat \<Rightarrow> int" where
  "py_int x = (if 0 \<le> x then \<lfloor>x\<rfloor> else \<lceil>x\<rceil>)"

function digits :: "int \<Rightarrow> pystr" where
  "digits n = (if n < 10 then [nat (48 + n)] else digits (n div 10) @ [nat (48 + n mod 10)])"
  by pat_completeness auto
termination
proof (relation "measure nat")
  show "wf (measure nat)" by simp
next
  fix n :: int
  assume "\<not> n < 10"
  then show "(n div 10, n) \<in> measure nat" by simp
qed

definition str_of_int :: "int \<Rightarrow> pystr" where
  "str_of_int i = (if i < 0 then 45 # digits (- i) else digits i)"

definition millis :: "rat \<Rightarrow> int" where
  "millis t = py_int (fmul t 1000)"

section \<open>Requests, records and the two stores\<close>

text \<open>
  The request and response models, and the dictionaries that the endpoints store.  The
  type \<open>'c\<close> stands for the opaque \<^verbatim>\<open>context\<close> dictionary.
\<close>

record 'c code_analysis_request =
  req_code :: pystr
  req_language :: pystr
  req_context :: "'c option"
  req_user_id :: "pystr option"
  req_session_id :: "pystr option"

record 'c analysis_result =
  r_analysis_id :: pystr
  r_timestamp :: pystr
  r_code :: pystr
  r_language :: pystr
  r_change_type :: pystr
  r_affected_elements :: "pystr list"
  r_components :: "pystr list"
  r_hooks :: "pystr list"
  r_events :: "pystr list"
  r_styling :: "pystr list"
  r_explanation :: pystr
  r_confidence :: rat
  r_suggestions :: "pystr list"
  r_significant_change :: bool
  r_context :: "'c option"
  r_user_id :: "pystr option"
  r_session_id :: "pystr option"

record code_analysis_response =
  a_analysis_id :: pystr
  a_timestamp :: pystr
  a_change_type :: pystr
  a_affected_elements :: "pystr list"
  a_components :: "pystr list"
  a_hooks :: "pystr list"
  a_events :: "pystr list"
  a_styling :: "pystr list"
  a_explanation :: pystr
  a_confidence :: rat
  a_suggestions :: "pystr list"
  a_significant_change :: bool

text \<open>\<^verbatim>\<open>CodeAnalysisResponse(**analysis_result)\<close> keeps the fields of the response model.\<close>

definition CodeAnalysisResponse :: "'c analysis_result \<Rightarrow> code_analysis_response" where
  "CodeAnalysisResponse r =
     \<lparr>a_analysis_id = r_analysis_id r, a_timestamp = r_timestamp r,
      a_change_type = r_change_type r, a_affected_elements = r_affected_elements r,
      a_components = r_components r, a_hooks = r_hooks r, a_events = r_events r,
      a_styling = r_styling r, a_explanation = r_explanation r,
      a_confidence = r_confidence r, a_suggestions = r_suggestions r,
      a_significant_change = r_significant_change r\<rparr>"

record video_generation_request =
  vr_analysis_id :: pystr
  vr_change_type :: pystr
  vr_code_snippet :: pystr
  vr_explanation :: pystr
  vr_affected_elements :: "pystr list"
  vr_title :: "pystr option"

text \<open>
  The dictionary kept for a video job; \<open>v_error\<close> is the key \<^verbatim>\<open>"error"\<close>, absent
  until the failure handler writes it.
\<close>

record video_status =
  v_video_id :: pystr
  v_status :: pystr
  v_progress :: int
  v_video_url :: "pystr option"
  v_thumbnail_url :: "pystr option"
  v_duration :: "int option"
  v_generated_at :: "pystr option"
  v_analysis_id :: pystr
  v_title :: pystr
  v_error :: "pystr option"

record video_generation_response =
  o_video_id :: pystr
  o_status :: pystr
  o_progress :: int
  o_video_url :: "pystr option"
  o_thumbnail_url :: "pystr option"
  o_duration :: "int option"
  o_generated_at :: "pystr option"

definition VideoGenerationResponse :: "video_status \<Rightarrow> video_generation_response" where
  "VideoGenerationResponse v =
     \<lparr>o_video_id = v_video_id v, o_status = v_status v, o_progress = v_progress v,
      o_video_url = v_video_url v, o_thumbnail_url = v_thumbnail_url v,
      o_duration = v_duration v, o_generated_at = v_generated_at v\<rparr>"

text \<open>
  A Python dictionary keeps its keys in insertion order; assigning to a key that is
  present replaces the value where it stands.  The stores are association lists with
  that assignment.
\<close>

fun dict_set :: "('k \<times> 'v) list \<Rightarrow> 'k \<Rightarrow> 'v \<Rightarrow> ('k \<times> 'v) list" where
  "dict_set [] k v = [(k, v)]"
| "dict_set ((k', v') # kvs) k v =
     (if k' = k then (k, v) # kvs else (k', v') # dict_set kvs k v)"

definition dict_values :: "('k \<times> 'v) list \<Rightarrow> 'v list" where
  "dict_values kvs = map snd kvs"

record 'c app_state =
  analysis_storage :: "(pystr \<times> 'c analysis_result) list"
  video_generation_status :: "(pystr \<times> video_status) list"

datatype http_error = HTTPException nat pystr

section \<open>The endpoints\<close>

text \<open>
  An endpoint takes the state of the two stores and returns its response with the new
  state.  The clock is an input: \<open>t\<close> is the value of \<^verbatim>\<open>time.time()\<close> and \<open>now\<close> the
  value of \<^verbatim>\<open>datetime.now().isoformat()\<close> read by the call.

  The body of \<open>analyze_code\<close> stands in a \<^verbatim>\<open>try\<close> whose handler raises an
  \<open>HTTPException\<close> with status 500.  No operation of the body raises (the extractors,
  the table lookups and the arithmetic are total, and the response model accepts the
  record), so the result is always the \<open>Inr\<close> branch.
\<close>

definition analyze_code ::
  "unicode_db \<Rightarrow> 'c code_analysis_request \<Rightarrow> rat \<Rightarrow> pystr \<Rightarrow> 'c app_state
     \<Rightarrow> (http_error + code_analysis_response) \<times> 'c app_state" where
  "analyze_code U request t now st =
     (let analysis_id = str ''analysis_'' @ str_of_int (millis t);
          components = extract_components U (req_code request) (req_language request);
          hooks = extract_hooks U (req_code request) (req_language request);
          events = extract_event_handlers U (req_code request) (req_language request);
          styling = extract_styling U (req_code request) (req_language request);
          analysis_data = [str ''components'' \<mapsto> components, str ''hooks'' \<mapsto> hooks,
                           str ''events'' \<mapsto> events, str ''styling'' \<mapsto> styling];
          change_type = determine_change_type analysis_data;
          affected_elements = get_affected_elements change_type;
          explanation = generate_explanation change_type analysis_data;
          confidence = calculate_confidence analysis_data;
          suggestions = get_suggestions change_type analysis_data;
          significant_change =
            (components \<noteq> [] \<or> hooks \<noteq> [] \<or> events \<noteq> [] \<or> styling \<noteq> []);
          analysis_result =
            \<lparr>r_analysis_id = analysis_id, r_timestamp = now,
             r_code = req_code request, r_language = req_language request,
             r_change_type = change_type, r_affected_elements = affected_elements,
             r_components = components, r_hooks = hooks, r_events = events,
             r_styling = styling, r_explanation = explanation,
             r_confidence = confidence, r_suggestions = suggestions,
             r_significant_change = significant_change,
             r_context = req_context request, r_user_id = req_user_id request,
             r_session_id = req_session_id request\<rparr>
      in (Inr (CodeAnalysisResponse analysis_result),
          st\<lparr>analysis_storage := dict_set (analysis_storage st) analysis_id analysis_result\<rparr>))"

text \<open>
  \<open>generate_video\<close> also returns the identifier of the job whose background task it
  has scheduled.  \<^verbatim>\<open>request.title or f"Understanding: ..."\<close> takes the default for a
  missing and for an empty title.
\<close>

definition generate_video ::
  "video_generation_request \<Rightarrow> rat \<Rightarrow> 'c app_state
     \<Rightarrow> (http_error + video_generation_response) \<times> 'c app_state \<times> pystr" where
  "generate_video request t st =
     (let video_id = str ''video_'' @ str_of_int (millis t);
          video_status =
            \<lparr>v_video_id = video_id, v_status = str ''pending'', v_progress = 0,
             v_video_url = None, v_thumbnail_url = None, v_duration = None,
             v_generated_at = None, v_analysis_id = vr_analysis_id request,
             v_title = (case vr_title request of
                          None \<Rightarrow> str ''Understanding: ''
                                     @ replace_char (of_char CHR ''_'') (str '' '')
                                         (vr_change_type request)
                        | Some title \<Rightarrow>
                            if title = [] then str ''Understanding: ''
                                     @ replace_char (of_char CHR ''_'') (str '' '')
                                         (vr_change_type request)
                            else title),
             v_error = None\<rparr>
      in (Inr (VideoGenerationResponse video_status),
          st\<lparr>video_generation_status :=
                dict_set (video_generation_status st) video_id video_status\<rparr>,
          video_id))"

definition get_video_status ::
  "pystr \<Rightarrow> 'c app_state \<Rightarrow> http_error + video_generation_response" where
  "get_video_status video_id st =
     (case map_of (video_generation_status st) video_id of
        None \<Rightarrow> Inl (HTTPException 404 (str ''Video not found''))
      | Some v \<Rightarrow> Inr (VideoGenerationResponse v))"

definition get_analysis :: "pystr \<Rightarrow> 'c app_state \<Rightarrow> http_error + 'c analysis_result" where
  "get_analysis analysis_id st =
     (case map_of (analysis_storage st) analysis_id of
        None \<Rightarrow> Inl (HTTPException 404 (str ''Analysis not found''))
      | Some r \<Rightarrow> Inr r)"

text \<open>
  \<^verbatim>\<open>xs[:n]\<close>: the first \<open>n\<close> elements, and for a negative \<open>n\<close> all but the last \<open>-n\<close>.
  \<^verbatim>\<open>xs.sort(key=f, reverse=True)\<close> is the stable sort of the reversed list, reversed.
\<close>

definition slice_to :: "int \<Rightarrow> 'a list \<Rightarrow> 'a list" where
  "slice_to n xs = (if 0 \<le> n then take (nat n) xs else take (length xs - nat (- n)) xs)"

definition sort_reverse :: "('a \<Rightarrow> 'k::linorder) \<Rightarrow> 'a list \<Rightarrow> 'a list" where
  "sort_reverse f xs = rev (sort_key f (rev xs))"

record 'c user_history =
  h_user_id :: pystr
  h_total_analyses :: nat
  h_analyses :: "'c analysis_result list"

definition get_user_history :: "pystr \<Rightarrow> int \<Rightarrow> 'c app_state \<Rightarrow> 'c user_history" where
  "get_user_history user_id limit st =
     (let user_analyses = filter (\<lambda>analysis. r_user_id analysis = Some user_id)
                                 (dict_values (analysis_storage st));
          user_analyses = sort_reverse r_timestamp user_analyses
      in \<lparr>h_user_id = user_id, h_total_analyses = length user_analyses,
          h_analyses = slice_to limit user_analyses\<rparr>)"

section \<open>The background task\<close>

text \<open>
  \<open>generate_video_background\<close> is a coroutine: it runs until it awaits
  \<^verbatim>\<open>asyncio.sleep(1)\<close>, and the event loop resumes it later; between two awaits nothing
  else runs.  A task is the job's identifier and the point where the coroutine is
  suspended: not yet started, asleep in the loop with the progress values still to
  write, finished, or ended by an exception that left it.

  A statement of the task reads \<^verbatim>\<open>video_generation_status[video_id]\<close>, which raises
  \<open>KeyError\<close> when the key is missing.  The handler of the \<^verbatim>\<open>try\<close> reads the same
  entry, so there the exception leaves the task.
\<close>

function py_range :: "int \<Rightarrow> int \<Rightarrow> int \<Rightarrow> int list" where
  "py_range a b step = (if 0 < step \<and> a < b then a # py_range (a + step) b step else [])"
  by pat_completeness auto
termination
proof (relation "measure (\<lambda>(a, b, step). nat (b - a))")
  show "wf (measure (\<lambda>(a, b, step). nat (b - a)))" by simp
next
  fix a b step :: int
  assume "0 < step \<and> a < b"
  then show "((a + step, b, step), a, b, step) \<in> measure (\<lambda>(a, b, step). nat (b - a))"
    by simp
qed

datatype bg_pc = NotStarted | Sleeping "int list" | Finished | Raised

record bg_task =
  t_video_id :: pystr
  t_pc :: bg_pc

type_synonym video_store = "(pystr \<times> video_status) list"

definition set_entry ::
  "pystr \<Rightarrow> (video_status \<Rightarrow> video_status) \<Rightarrow> video_store \<Rightarrow> video_store option" where
  "set_entry video_id f store =
     (case map_of store video_id of
        None \<Rightarrow> None
      | Some v \<Rightarrow> Some (dict_set store video_id (f v)))"

text \<open>
  \<open>exec_stmts\<close> runs assignments to the job's entry one after the other and returns the
  store after each of them, and whether all of them ran.
\<close>

fun exec_stmts ::
  "pystr \<Rightarrow> (video_status \<Rightarrow> video_status) list \<Rightarrow> video_store \<Rightarrow> video_store list \<times> bool"
  where
  "exec_stmts video_id [] store = ([], True)"
| "exec_stmts video_id (f # fs) store =
     (case set_entry video_id f store of
        None \<Rightarrow> ([], False)
      | Some store' \<Rightarrow>
          (case exec_stmts video_id fs store' of (trace, ok) \<Rightarrow> (store' # trace, ok)))"

definition mark_completed :: "pystr \<Rightarrow> pystr \<Rightarrow> video_status \<Rightarrow> video_status" where
  "mark_completed video_id now v =
     v\<lparr>v_status := str ''completed'', v_progress := 100,
       v_video_url := Some (str ''/videos/'' @ video_id @ str ''.webm''),
       v_thumbnail_url := Some (str ''/thumbnails/'' @ video_id @ str ''.jpg''),
       v_duration := Some 8, v_generated_at := Some now\<rparr>"

definition mark_failed :: "pystr \<Rightarrow> video_status \<Rightarrow> video_status" where
  "mark_failed e v = v\<lparr>v_status := str ''failed'', v_error := Some e\<rparr>"

text \<open>
  \<open>run_block\<close> runs the task from a resumption to its next await or to its end: the
  statements \<open>stmts\<close>, then the next \<^verbatim>\<open>await\<close> when the loop has values \<open>ps\<close> left, and
  otherwise the final update.  It returns the task and the store after each statement.
  The text of a \<open>KeyError\<close> is the key between quotes.
\<close>

definition run_block ::
  "pystr \<Rightarrow> (video_status \<Rightarrow> video_status) list \<Rightarrow> int list \<Rightarrow> pystr \<Rightarrow> video_store
     \<Rightarrow> bg_task \<times> video_store list" where
  "run_block video_id stmts ps now store =
     (case exec_stmts video_id (if ps = [] then stmts @ [mark_completed video_id now] else stmts)
             store of
        (trace, True) \<Rightarrow>
          (\<lparr>t_video_id = video_id, t_pc = (if ps = [] then Finished else Sleeping ps)\<rparr>, trace)
      | (trace, False) \<Rightarrow>
          (case set_entry video_id (mark_failed (str [CHR 0x27] @ video_id @ str [CHR 0x27]))
                  (last (store # trace)) of
             None \<Rightarrow> (\<lparr>t_video_id = video_id, t_pc = Raised\<rparr>, trace)
           | Some store' \<Rightarrow> (\<lparr>t_video_id = video_id, t_pc = Finished\<rparr>, trace @ [store'])))"

definition resume :: "pystr \<Rightarrow> bg_task \<Rightarrow> video_store \<Rightarrow> bg_task \<times> video_store list" where
  "resume now task store =
     (case t_pc task of
        NotStarted \<Rightarrow>
          run_block (t_video_id task)
            [\<lambda>v. v\<lparr>v_status := str ''generating''\<rparr>, \<lambda>v. v\<lparr>v_progress := 10\<rparr>]
            (py_range 20 100 20) now store
      | Sleeping [] \<Rightarrow> (task\<lparr>t_pc := Finished\<rparr>, [])
      | Sleeping (p # ps) \<Rightarrow>
          run_block (t_video_id task) [\<lambda>v. v\<lparr>v_progress := p\<rparr>] ps now store
      | Finished \<Rightarrow> (task, [])
      | Raised \<Rightarrow> (task, []))"

text \<open>
  \<open>generate_video_background\<close> is the task run from its start to its end with nothing
  else in between: the stores it passes through, statement by statement.  The loop
  resumes the task until it has finished; each resumption shortens the list of values
  left, so \<open>fuel\<close> beyond the length of that list is never used up.
\<close>

fun resume_all :: "nat \<Rightarrow> pystr \<Rightarrow> bg_task \<Rightarrow> video_store \<Rightarrow> bg_task \<times> video_store list" where
  "resume_all 0 now task store = (task, [])"
| "resume_all (Suc fuel) now task store =
     (case resume now task store of
        (task', trace) \<Rightarrow>
          (case resume_all fuel now task' (last (store # trace)) of
             (task'', trace') \<Rightarrow> (task'', trace @ trace')))"

definition generate_video_background ::
  "pystr \<Rightarrow> pystr \<Rightarrow> video_store \<Rightarrow> bg_task \<times> video_store list" where
  "generate_video_background video_id now store =
     resume_all (Suc (length (py_range 20 100 20))) now
       \<lparr>t_video_id = video_id, t_pc = NotStarted\<rparr> store"

section \<open>The server\<close>

text \<open>
  The server is the two stores and the background tasks it has scheduled.  Its event
  loop runs one thing at a time: a request to start a video job, which stores the job and
  schedules its task, or the resumption of the \<open>i\<close>-th task up to its next await.
\<close>

record 'c server =
  stores :: "'c app_state"
  tasks :: "bg_task list"

datatype event = StartVideo video_generation_request rat | Resume nat pystr

fun serve :: "event \<Rightarrow> 'c server \<Rightarrow> 'c server" where
  "serve (StartVideo request t) sv =
     (case generate_video request t (stores sv) of
        (response, st, video_id) \<Rightarrow>
          \<lparr>stores = st, tasks = tasks sv @ [\<lparr>t_video_id = video_id, t_pc = NotStarted\<rparr>]\<rparr>)"
| "serve (Resume i now) sv =
     (if i < length (tasks sv)
      then (case resume now (tasks sv ! i) (video_generation_status (stores sv)) of
              (task, trace) \<Rightarrow>
                \<lparr>stores = (stores sv)\<lparr>video_generation_status :=
                             last (video_generation_status (stores sv) # trace)\<rparr>,
                 tasks = (tasks sv)[i := task]\<rparr>)
      else sv)"

text \<open>The states of the server after each event of a run.\<close>

fun serve_all :: "event list \<Rightarrow> 'c server \<Rightarrow> 'c server list" where
  "serve_all [] sv = []"
| "serve_all (ev # evs) sv = serve ev sv # serve_all evs (serve ev sv)"

section \<open>Example inputs\<close>

text \<open>
  A store built by three analyses of the user \<open>u1\<close>.  The first two read the clock
  for their identifiers in different milliseconds and read the same microsecond for
  their timestamps.
\<close>

definition example_request :: "string \<Rightarrow> unit code_analysis_request" where
  "example_request code =
     \<lparr>req_code = str code, req_language = str ''javascript'', req_context = None,
      req_user_id = Some (str ''u1''), req_session_id = None\<rparr>"

definition empty_state :: "unit app_state" where
  "empty_state = \<lparr>analysis_storage = [], video_generation_status = []\<rparr>"

definition history_example :: "unit app_state" where
  "history_example =
     snd (analyze_code ascii_db (example_request ''<b onClick={f}/>'')
            (1700000001 + 1 / 4) (str ''2023-11-14T22:13:21.250010'')
       (snd (analyze_code ascii_db (example_request ''useState(0)'')
            (1700000000 + 1049 / 1048576) (str ''2023-11-14T22:13:20.001000'')
         (snd (analyze_code ascii_db (example_request ''function App() {}'')
            (1700000000 + 1 / 1024) (str ''2023-11-14T22:13:20.001000'')
            empty_state)))))"

text \<open>Lists of records in descending and in strictly descending order of timestamp.\<close>

definition descending :: "'c analysis_result list \<Rightarrow> bool" where
  "descending rs = sorted_wrt (\<lambda>a b. r_timestamp b \<le> r_timestamp a) rs"

definition strictly_descending :: "'c analysis_result list \<Rightarrow> bool" where
  "strictly_descending rs = sorted_wrt (\<lambda>a b. r_timestamp b < r_timestamp a) rs"

text \<open>
  A run of the server in which two video jobs are started in the same millisecond: the
  first job is stored and its task runs up to its first await, then the second job is
  stored, and the two tasks take turns until both have ended.  The first task completes
  at \<open>22:13:24.000200\<close>, the second at \<open>22:13:24.000450\<close>.
\<close>

definition job_request :: "string \<Rightarrow> video_generation_request" where
  "job_request a =
     \<lparr>vr_analysis_id = str a, vr_change_type = str ''styling'', vr_code_snippet = [],
      vr_explanation = [], vr_affected_elements = [], vr_title = None\<rparr>"

definition collision_run :: "event list" where
  "collision_run =
     [StartVideo (job_request ''analysis_1'') (1700000000 + 1 / 8192),
      Resume 0 (str ''2023-11-14T22:13:20.000150''),
      StartVideo (job_request ''analysis_2'') (1700000000 + 3 / 8192),
      Resume 1 (str ''2023-11-14T22:13:20.000400''),
      Resume 0 (str ''2023-11-14T22:13:21.000200''),
      Resume 1 (str ''2023-11-14T22:13:21.000450''),
      Resume 0 (str ''2023-11-14T22:13:22.000200''),
      Resume 1 (str ''2023-11-14T22:13:22.000450''),
      Resume 0 (str ''2023-11-14T22:13:23.000200''),
      Resume 1 (str ''2023-11-14T22:13:23.000450''),
      Resume 0 (str ''2023-11-14T22:13:24.000200''),
      Resume 1 (str ''2023-11-14T22:13:24.000450'')]"

definition empty_server :: "unit server" where
  "empty_server = \<lparr>stores = empty_state, tasks = []\<rparr>"

text \<open>What a status query for \<open>video_id\<close> shows of a job: status, progress, completion time.\<close>

definition snapshot :: "pystr \<Rightarrow> 'c server \<Rightarrow> (pystr \<times> int \<times> pystr option) option" where
  "snapshot video_id sv =
     (case get_video_status video_id (stores sv) of
        Inl e \<Rightarrow> None
      | Inr response \<Rightarrow> Some (o_status response, o_progress response, o_generated_at response))"

text \<open>Status and progress of a job in a store of video jobs.\<close>

definition job_view :: "pystr \<Rightarrow> video_store \<Rightarrow> (pystr \<times> int) option" where
  "job_view video_id store =
     map_option (\<lambda>v. (v_status v, v_progress v)) (map_of store video_id)"

section \<open>Properties of the classifier\<close>

lemma starts_with_iff: "starts_with s p \<longleftrightarrow> (\<exists>post. s = p @ post)"
  by (induction s p rule: starts_with.induct) auto

text \<open>\<open>py_in\<close> is the substring test.\<close>

lemma py_in_iff: "py_in sub s \<longleftrightarrow> (\<exists>pre post. s = pre @ sub @ post)"
proof (induction s)
  case Nil
  then show ?case by auto
next
  case (Cons c cs)
  show ?case
  proof
    assume "py_in sub (c # cs)"
    then consider "starts_with (c # cs) sub" | "py_in sub cs" by auto
    then show "\<exists>pre post. c # cs = pre @ sub @ post"
    proof cases
      case 1
      then obtain post where "c # cs = sub @ post" by (auto simp: starts_with_iff)
      then have "c # cs = [] @ sub @ post" by simp
      then show ?thesis by blast
    next
      case 2
      then obtain pre post where "cs = pre @ sub @ post" using Cons.IH by auto
      then have "c # cs = (c # pre) @ sub @ post" by simp
      then show ?thesis by blast
    qed
  next
    assume "\<exists>pre post. c # cs = pre @ sub @ post"
    then obtain pre post where eq: "c # cs = pre @ sub @ post" by blast
    show "py_in sub (c # cs)"
    proof (cases pre)
      case Nil
      then have "starts_with (c # cs) sub" using eq by (auto simp: starts_with_iff)
      then show ?thesis by simp
    next
      case (Cons a pre')
      then have "cs = pre' @ sub @ post" using eq by simp
      then have "py_in sub cs" using Cons.IH by blast
      then show ?thesis by simp
    qed
  qed
qed

lemma truthy_items: "truthy v \<longleftrightarrow> items v \<noteq> []"
  by (simp add: truthy_def items_def split: option.splits)

text \<open>
  Claim C1.  The classifier is the ordered cascade: a hook whose name contains
  \<open>useState\<close> or \<open>useReducer\<close> gives \<open>state_management\<close> whatever else is present;
  otherwise a hook whose name contains \<open>useEffect\<close> gives \<open>side_effects\<close>; otherwise
  a non-empty event set gives \<open>event_handling\<close>, then a non-empty styling set
  \<open>styling\<close>, then a non-empty component set \<open>component_structure\<close>, and
  \<open>general_coding\<close> is the fallback.
\<close>

theorem determine_change_type_cascade:
  "determine_change_type d =
     (if \<exists>h \<in> set (items (d (str ''hooks''))).
           py_in (str ''useState'') h \<or> py_in (str ''useReducer'') h
      then str ''state_management''
      else if \<exists>h \<in> set (items (d (str ''hooks''))). py_in (str ''useEffect'') h
      then str ''side_effects''
      else if items (d (str ''events'')) \<noteq> [] then str ''event_handling''
      else if items (d (str ''styling'')) \<noteq> [] then str ''styling''
      else if items (d (str ''components'')) \<noteq> [] then str ''component_structure''
      else str ''general_coding'')"
proof -
  have ex: "(truthy (d (str ''hooks'')) \<and> list_ex P (items (d (str ''hooks''))))
            \<longleftrightarrow> (\<exists>h \<in> set (items (d (str ''hooks''))). P h)" for P
    by (auto simp: truthy_items list_ex_iff)
  show ?thesis
    unfolding determine_change_type_def by (simp only: ex) (simp only: truthy_items)
qed

theorem determine_change_type_cascade_witness:
  "determine_change_type
     [str ''components'' \<mapsto> [str ''Header''],
      str ''hooks'' \<mapsto> [str ''useEffect'', str ''useState''],
      str ''events'' \<mapsto> [str ''onClick''], str ''styling'' \<mapsto> [str ''btn'']]
   = str ''state_management''"
  using determine_change_type_cascade
    [of "[str ''components'' \<mapsto> [str ''Header''],
          str ''hooks'' \<mapsto> [str ''useEffect'', str ''useState''],
          str ''events'' \<mapsto> [str ''onClick''], str ''styling'' \<mapsto> [str ''btn'']]"]
  by (simp add: str_def items_def)

section \<open>Properties of the matcher\<close>

text \<open>A match ends at or after its start, and after it when the pattern begins with a character.\<close>

lemma rmatch_end_ge: "rmatch U p s pos gs g = Some (e, sp) \<Longrightarrow> pos \<le> e"
proof (induction U p s pos gs g rule: rmatch.induct)
  case (9 U c p x xs pos gs g)
  show ?case
  proof (cases "in_cset U c x")
    case True
    show ?thesis
    proof (cases "rmatch U (Star c # p) xs (Suc pos) gs g")
      case None
      with True 9 show ?thesis by simp
    next
      case (Some r)
      with True 9 have "Suc pos \<le> e" by simp
      then show ?thesis by simp
    qed
  next
    case False
    with 9 show ?thesis by simp
  qed
qed (auto split: if_splits dest: Suc_leD)

lemma rmatch_not_empty:
  assumes "rmatch U (One c # p) s pos gs g = Some (e, sp)"
  shows "pos < e"
proof (cases s)
  case Nil
  with assms show ?thesis by simp
next
  case (Cons x xs)
  with assms have "rmatch U p xs (Suc pos) gs g = Some (e, sp)"
    by (simp split: if_splits)
  then have "Suc pos \<le> e" by (rule rmatch_end_ge)
  then show ?thesis by simp
qed

text \<open>Every pattern of the source begins with a character, so its matches are not empty.\<close>

lemma source_patterns_begin_with_a_character:
  "\<forall>pat \<in> {pat_function, pat_const, pat_class, pat_hook, pat_event, pat_className,
              pat_style, pat_class_name}. \<exists>c p. pat = One c # p"
  by (simp add: pat_function_def pat_const_def pat_class_def pat_hook_def pat_event_def
        pat_className_def pat_style_def pat_class_name_def lit_def)

text \<open>A match of a pattern that closes group 1 has the span of the group.\<close>

lemma rmatch_group:
  "rmatch U p s pos gs g = Some (e, sp) \<Longrightarrow> g \<noteq> None \<or> GroupClose \<in> set p \<Longrightarrow> sp \<noteq> None"
proof (induction U p s pos gs g rule: rmatch.induct)
  case (9 U c p x xs pos gs g)
  show ?case
  proof (cases "in_cset U c x")
    case True
    show ?thesis
    proof (cases "rmatch U (Star c # p) xs (Suc pos) gs g")
      case None
      with True 9 show ?thesis by simp
    next
      case (Some r)
      with True 9 show ?thesis by simp
    qed
  next
    case False
    with 9 show ?thesis by simp
  qed
qed (auto split: if_splits)

text \<open>
  The end-to-end example of the specification: a component \<open>Header\<close>, no hook, an
  \<open>onClick\<close> handler and a class name \<open>btn-primary\<close> give \<open>event_handling\<close>.
\<close>

lemma end_to_end_example:
  "extract_components ascii_db
     (str ''function Header() { return <a onClick={go} className=\"btn-primary\"/> }'')
     (str ''javascript'') = [str ''Header'']"
  "extract_hooks ascii_db
     (str ''function Header() { return <a onClick={go} className=\"btn-primary\"/> }'')
     (str ''javascript'') = []"
  "extract_event_handlers ascii_db
     (str ''function Header() { return <a onClick={go} className=\"btn-primary\"/> }'')
     (str ''javascript'') = [str ''onClick'']"
  "extract_styling ascii_db
     (str ''function Header() { return <a onClick={go} className=\"btn-primary\"/> }'')
     (str ''javascript'') = [str ''btn-primary'']"
  "determine_change_type
     [str ''components'' \<mapsto> [str ''Header''], str ''hooks'' \<mapsto> [],
      str ''events'' \<mapsto> [str ''onClick''], str ''styling'' \<mapsto> [str ''btn-primary'']]
     = str ''event_handling''"
  by code_simp+

section \<open>Properties of the extractors\<close>

text \<open>
  Claim C6.  Every extractor returns a duplicate-free list for every code and every
  language tag, and the empty list for every language other than \<open>javascript\<close>,
  \<open>typescript\<close> and \<open>python\<close>.  The extractors are functions to lists: the source has
  no \<open>raise\<close> on these paths, and the scan of \<open>finditer\<close> terminates on every input.
\<close>

theorem extractors_distinct_and_unsupported_empty:
  "distinct (extract_components U code language) \<and>
   distinct (extract_hooks U code language) \<and>
   distinct (extract_event_handlers U code language) \<and>
   distinct (extract_styling U code language) \<and>
   (language \<notin> {str ''javascript'', str ''typescript'', str ''python''} \<longrightarrow>
      extract_components U code language = [] \<and> extract_hooks U code language = [] \<and>
      extract_event_handlers U code language = [] \<and> extract_styling U code language = [])"
  by (simp add: extract_components_def extract_hooks_def extract_event_handlers_def
        extract_styling_def list_set_def)

theorem extractors_distinct_and_unsupported_empty_witness:
  "str ''java'' \<notin> {str ''javascript'', str ''typescript'', str ''python''} \<and>
   extract_components ascii_db (str ''class Foo {}'') (str ''java'') = [] \<and>
   extract_hooks ascii_db (str ''class Foo {}'') (str ''java'') = [] \<and>
   extract_event_handlers ascii_db (str ''class Foo {}'') (str ''java'') = [] \<and>
   extract_styling ascii_db (str ''class Foo {}'') (str ''java'') = []"
  using extractors_distinct_and_unsupported_empty
    [of ascii_db "str ''class Foo {}''" "str ''java''"]
  by (simp add: str_def)

section \<open>Properties of the confidence\<close>

text \<open>The floating-point sums that the confidence can pass through.\<close>

lemma sum_070: "fadd (1 / 2) lit_0_2 = 3152519739159347 / 4503599627370496"
  by code_simp
lemma sum_065: "fadd (1 / 2) lit_0_15 = 5854679515581645 / 9007199254740992"
  by code_simp
lemma sum_090: "fadd (3152519739159347 / 4503599627370496) lit_0_2
                  = 2026619832316723 / 2251799813685248"
  by code_simp
lemma sum_085: "fadd (3152519739159347 / 4503599627370496) lit_0_15
                  = 7656119366529843 / 9007199254740992"
  by code_simp
lemma sum_080: "fadd (5854679515581645 / 9007199254740992) lit_0_15
                  = 3602879701896397 / 4503599627370496"
  by code_simp
lemma sum_105: "fadd (2026619832316723 / 2251799813685248) lit_0_15
                  = 1182194902184755 / 1125899906842624"
  by code_simp
lemma sum_100: "fadd (7656119366529843 / 9007199254740992) lit_0_15 = 1"
  by code_simp
lemma sum_120: "fadd (1182194902184755 / 1125899906842624) lit_0_15
                  = 2702159776422297 / 2251799813685248"
  by code_simp

lemmas partial_sums = sum_070 sum_065 sum_090 sum_085 sum_080 sum_105 sum_100 sum_120


lemma confidence_fold:
  "(let confidence = 1 / 2;
        confidence = (if c then fadd confidence lit_0_2 else confidence);
        confidence = (if h then fadd confidence lit_0_2 else confidence);
        confidence = (if e then fadd confidence lit_0_15 else confidence);
        confidence = (if s then fadd confidence lit_0_15 else confidence)
    in min 1 confidence) = spec_confidence c h e s"
  by (simp add: spec_confidence_def Let_def)

lemma calculate_confidence_spec:
  "calculate_confidence d =
     spec_confidence (truthy (d (str ''components''))) (truthy (d (str ''hooks'')))
       (truthy (d (str ''events''))) (truthy (d (str ''styling'')))"
  unfolding calculate_confidence_def confidence_fold by (rule refl)

lemma spec_confidence_table:
  "spec_confidence c h e s =
     (if c then
        if h then
          if e then 1
          else if s then 1
          else 2026619832316723 / 2251799813685248
        else if e then
          if s then 1
          else 7656119366529843 / 9007199254740992
        else if s then 7656119366529843 / 9007199254740992
        else 3152519739159347 / 4503599627370496
      else
        if h then
          if e then
            if s then 1
            else 7656119366529843 / 9007199254740992
          else if s then 7656119366529843 / 9007199254740992
          else 3152519739159347 / 4503599627370496
        else if e then
          if s then 3602879701896397 / 4503599627370496
          else 5854679515581645 / 9007199254740992
        else if s then 5854679515581645 / 9007199254740992
        else 1 / 2)"
  by (induct c; induct h; induct e; induct s;
      simp only: spec_confidence_def list.map filter.simps fst_conv snd_conv if_True if_False
        foldl.simps partial_sums;
      simp)

lemma spec_confidence_mono:
  "(c1 \<longrightarrow> c2) \<Longrightarrow> (h1 \<longrightarrow> h2) \<Longrightarrow> (e1 \<longrightarrow> e2) \<Longrightarrow> (s1 \<longrightarrow> s2) \<Longrightarrow>
   spec_confidence c1 h1 e1 s1 \<le> spec_confidence c2 h2 e2 s2"
  by (induct c1; induct c2; induct h1; induct h2; induct e1; induct e2; induct s1; induct s2;
      simp add: spec_confidence_table)

lemma spec_confidence_range: "0 \<le> spec_confidence c h e s \<and> spec_confidence c h e s \<le> 1"
  by (induct c; induct h; induct e; induct s; simp add: spec_confidence_table)

lemma spec_confidence_decimal:
  "\<bar>spec_confidence c h e s - decimal_confidence c h e s\<bar> \<le> 1 / 2 ^ 53"
  by (induct c; induct h; induct e; induct s;
      simp add: spec_confidence_table decimal_confidence_def)

text \<open>
  Claim C3.  The confidence is the base 0.5 plus 0.20 for a non-empty component set,
  0.20 for a non-empty hook set, 0.15 for a non-empty event set and 0.15 for a non-empty
  styling set, added in this order in floating-point arithmetic and clamped to 1.0.  With
  all four sets non-empty it is exactly 1; it always lies between 0 and 1; and it differs
  from the sum taken in exact decimal arithmetic by at most \<open>2\<^sup>-\<^sup>5\<^sup>3\<close>.
\<close>

theorem calculate_confidence_formula:
  "calculate_confidence d =
     spec_confidence (items (d (str ''components'')) \<noteq> []) (items (d (str ''hooks'')) \<noteq> [])
       (items (d (str ''events'')) \<noteq> []) (items (d (str ''styling'')) \<noteq> []) \<and>
   (items (d (str ''components'')) \<noteq> [] \<and> items (d (str ''hooks'')) \<noteq> [] \<and>
    items (d (str ''events'')) \<noteq> [] \<and> items (d (str ''styling'')) \<noteq> []
      \<longrightarrow> calculate_confidence d = 1) \<and>
   0 \<le> calculate_confidence d \<and> calculate_confidence d \<le> 1 \<and>
   \<bar>calculate_confidence d -
     decimal_confidence (items (d (str ''components'')) \<noteq> []) (items (d (str ''hooks'')) \<noteq> [])
       (items (d (str ''events'')) \<noteq> []) (items (d (str ''styling'')) \<noteq> [])\<bar> \<le> 1 / 2 ^ 53"
proof -
  have all: "spec_confidence True True True True = 1"
    by (simp add: spec_confidence_table)
  show ?thesis
    using spec_confidence_range spec_confidence_decimal all
    by (simp add: calculate_confidence_spec truthy_items)
qed

theorem calculate_confidence_formula_witness:
  "calculate_confidence
     [str ''components'' \<mapsto> [str ''Header''], str ''hooks'' \<mapsto> [str ''useState''],
      str ''events'' \<mapsto> [str ''onClick''], str ''styling'' \<mapsto> [str ''btn'']] = 1"
  using calculate_confidence_formula
    [of "[str ''components'' \<mapsto> [str ''Header''], str ''hooks'' \<mapsto> [str ''useState''],
          str ''events'' \<mapsto> [str ''onClick''], str ''styling'' \<mapsto> [str ''btn'']]"]
  by (simp add: str_def items_def)

text \<open>
  Claim C9.  The confidence is monotone: when every extraction set that is non-empty in
  \<open>d1\<close> is non-empty in \<open>d2\<close>, the confidence of \<open>d1\<close> is at most that of \<open>d2\<close>.
\<close>

theorem calculate_confidence_monotone:
  assumes "items (d1 (str ''components'')) \<noteq> [] \<longrightarrow> items (d2 (str ''components'')) \<noteq> []"
    and "items (d1 (str ''hooks'')) \<noteq> [] \<longrightarrow> items (d2 (str ''hooks'')) \<noteq> []"
    and "items (d1 (str ''events'')) \<noteq> [] \<longrightarrow> items (d2 (str ''events'')) \<noteq> []"
    and "items (d1 (str ''styling'')) \<noteq> [] \<longrightarrow> items (d2 (str ''styling'')) \<noteq> []"
  shows "calculate_confidence d1 \<le> calculate_confidence d2"
  unfolding calculate_confidence_spec truthy_items
  using assms by (rule spec_confidence_mono)

theorem calculate_confidence_monotone_witness:
  "calculate_confidence [str ''components'' \<mapsto> [str ''Header'']]
     \<le> calculate_confidence
          [str ''components'' \<mapsto> [str ''Header''], str ''hooks'' \<mapsto> [str ''useState'']] \<and>
   calculate_confidence [str ''components'' \<mapsto> [str ''Header'']]
     = 3152519739159347 / 4503599627370496 \<and>
   calculate_confidence
     [str ''components'' \<mapsto> [str ''Header''], str ''hooks'' \<mapsto> [str ''useState'']]
     = 2026619832316723 / 2251799813685248"
  using calculate_confidence_monotone
    [of "[str ''components'' \<mapsto> [str ''Header'']]"
        "[str ''components'' \<mapsto> [str ''Header''], str ''hooks'' \<mapsto> [str ''useState'']]"]
  by (simp add: str_def items_def truthy_def calculate_confidence_spec spec_confidence_table)

text \<open>Assignment to a dictionary key, seen through the lookup.\<close>

lemma map_of_dict_set: "map_of (dict_set kvs k v) = (map_of kvs)(k \<mapsto> v)"
  by (induction kvs) (auto simp: fun_eq_iff)

section \<open>Properties of the analysis endpoint\<close>

lemma finditer_empty_code: "finditer U (One c # p) [] = []"
  unfolding finditer_def
  by (subst finditer_from.simps) simp

text \<open>On the empty code every extractor returns the empty list, for every language.\<close>

lemma extract_empty_code:
  "extract_components U [] language = []"
  "extract_hooks U [] language = []"
  "extract_event_handlers U [] language = []"
  "extract_styling U [] language = []"
  by (simp_all add: extract_components_def extract_hooks_def extract_event_handlers_def
        extract_styling_def all_group1_def list_set_def pat_function_def pat_const_def
        pat_class_def pat_hook_def pat_event_def pat_className_def pat_style_def
        pat_class_name_def lit_def finditer_empty_code)

lemma analysis_keys_distinct:
  "str ''components'' \<noteq> str ''hooks''" "str ''components'' \<noteq> str ''events''"
  "str ''components'' \<noteq> str ''styling''" "str ''hooks'' \<noteq> str ''events''"
  "str ''hooks'' \<noteq> str ''styling''" "str ''events'' \<noteq> str ''styling''"
  by (simp_all add: str_def)

text \<open>
  Claim C4.  When the four extraction sets of a request are empty, the analysis returns a
  response (not an error) whose change type is \<open>general_coding\<close>, whose
  \<open>significant_change\<close> is false and whose confidence is 0.5, and stores the record
  with the same values under the response's identifier.
\<close>

theorem analyze_code_nothing_found:
  assumes "extract_components U (req_code request) (req_language request) = []"
    and "extract_hooks U (req_code request) (req_language request) = []"
    and "extract_event_handlers U (req_code request) (req_language request) = []"
    and "extract_styling U (req_code request) (req_language request) = []"
  shows "\<exists>response st' record.
           analyze_code U request t now st = (Inr response, st') \<and>
           a_change_type response = str ''general_coding'' \<and>
           \<not> a_significant_change response \<and>
           a_confidence response = 1 / 2 \<and>
           map_of (analysis_storage st') (a_analysis_id response) = Some record \<and>
           r_change_type record = str ''general_coding'' \<and>
           \<not> r_significant_change record \<and>
           r_confidence record = 1 / 2"
proof -
  let ?d = "[str ''components'' \<mapsto> [], str ''hooks'' \<mapsto> [],
             str ''events'' \<mapsto> [], str ''styling'' \<mapsto> ([] :: pystr list)]"
  have look: "?d (str ''components'') = Some []" "?d (str ''hooks'') = Some []"
    "?d (str ''events'') = Some []" "?d (str ''styling'') = Some []"
    using analysis_keys_distinct by simp_all
  have ct: "determine_change_type ?d = str ''general_coding''"
    unfolding determine_change_type_def look by (simp add: truthy_def)
  have cf: "calculate_confidence ?d = 1 / 2"
    unfolding calculate_confidence_def look by (simp add: truthy_def)
  show ?thesis
    unfolding analyze_code_def Let_def assms ct cf
    by (simp add: CodeAnalysisResponse_def map_of_dict_set)
qed

theorem analyze_code_nothing_found_witness:
  "(let response = projr (fst (analyze_code ascii_db
      \<lparr>req_code = [], req_language = str ''javascript'', req_context = (None :: unit option),
       req_user_id = None, req_session_id = None\<rparr>
      1700000000 (str ''2023-11-14T22:13:20'')
      \<lparr>analysis_storage = [], video_generation_status = []\<rparr>))
    in a_change_type response = str ''general_coding'' \<and> \<not> a_significant_change response \<and>
       a_confidence response = 1 / 2)"
  using analyze_code_nothing_found
    [of ascii_db "\<lparr>req_code = [], req_language = str ''javascript'',
          req_context = (None :: unit option), req_user_id = None, req_session_id = None\<rparr>"
        1700000000 "str ''2023-11-14T22:13:20''"
        "\<lparr>analysis_storage = [], video_generation_status = []\<rparr>"]
  by (auto simp: extract_empty_code)
section \<open>Properties of the video endpoint\<close>

text \<open>
  Claim C10.  \<open>generate_video\<close> never looks at the analysis store.  For every request
  it returns a response with status \<open>pending\<close> and progress 0 and stores a job with these
  values, with the request's \<open>analysis_id\<close> as its back-reference, whether or not an
  analysis with that identifier exists; and the title is the request's title, or, when
  that is missing (or empty), \<open>Understanding: \<close> followed by the change type with every
  underscore replaced by a space.
\<close>

theorem generate_video_unchecked:
  "\<exists>response st' video_id job.
     generate_video request t st = (Inr response, st', video_id) \<and>
     o_status response = str ''pending'' \<and> o_progress response = 0 \<and>
     o_video_id response = video_id \<and>
     map_of (video_generation_status st') video_id = Some job \<and>
     v_status job = str ''pending'' \<and> v_progress job = 0 \<and>
     v_analysis_id job = vr_analysis_id request \<and>
     v_title job =
       (case vr_title request of
          None \<Rightarrow> str ''Understanding: ''
                     @ map (\<lambda>c. if c = of_char CHR ''_'' then of_char CHR '' '' else c)
                           (vr_change_type request)
        | Some title \<Rightarrow>
            if title = [] then str ''Understanding: ''
                     @ map (\<lambda>c. if c = of_char CHR ''_'' then of_char CHR '' '' else c)
                           (vr_change_type request)
            else title) \<and>
     analysis_storage st' = analysis_storage st \<and>
     generate_video request t (st\<lparr>analysis_storage := other\<rparr>)
       = (Inr response, st'\<lparr>analysis_storage := other\<rparr>, video_id)"
proof -
  have rep: "replace_char a [b] s = map (\<lambda>c. if c = a then b else c) s" for a b s
    by (induction s) (simp_all add: replace_char_def)
  have sp: "str '' '' = [of_char CHR '' '']"
    by (simp add: str_def)
  show ?thesis
    unfolding generate_video_def Let_def sp rep
    by (simp add: VideoGenerationResponse_def map_of_dict_set split: option.splits)
qed

theorem generate_video_unchecked_witness:
  "(case generate_video
      \<lparr>vr_analysis_id = str ''analysis_0'', vr_change_type = str ''side_effects'',
       vr_code_snippet = [], vr_explanation = [], vr_affected_elements = [],
       vr_title = None\<rparr>
      (17 + 1 / 8)
      (\<lparr>analysis_storage = [], video_generation_status = []\<rparr> :: unit app_state) of
     (response, st', video_id) \<Rightarrow>
       map (\<lambda>job. (v_status job, v_progress job, v_analysis_id job, v_title job))
           (dict_values (video_generation_status st'))
         = [(str ''pending'', 0, str ''analysis_0'', str ''Understanding: side effects'')] \<and>
       get_analysis (str ''analysis_0'') st' = Inl (HTTPException 404 (str ''Analysis not found'')))"
  using generate_video_unchecked
    [of "\<lparr>vr_analysis_id = str ''analysis_0'', vr_change_type = str ''side_effects'',
          vr_code_snippet = [], vr_explanation = [], vr_affected_elements = [],
          vr_title = None\<rparr>" "17 + 1 / 8"
        "\<lparr>analysis_storage = [], video_generation_status = []\<rparr> :: unit app_state"]
  by (auto simp: generate_video_def Let_def dict_values_def get_analysis_def replace_char_def
        str_def)
section \<open>Identifiers of records created in the same millisecond\<close>

lemma millis_same_ms:
  "millis (13926400000001 / 8192) = 1700000000000"
  "millis (13926400000003 / 8192) = 1700000000000"
  by code_simp+

lemma str_of_int_ms: "str_of_int 1700000000000 = map of_char ''1700000000000''"
  by code_simp

text \<open>
  Claim C2.  Two analyses whose clock readings fall into the same millisecond get the
  same \<open>analysis_id\<close>, and the second record replaces the first in the store; the same
  holds for the \<open>video_id\<close> of two video jobs.  Here the two calls read the clock at
  \<open>1700000000 + 1/8192\<close> and at \<open>1700000000 + 3/8192\<close> seconds, that is at
  \<open>13926400000001 / 8192\<close> and \<open>13926400000003 / 8192\<close>.
\<close>

theorem ids_collide_within_a_millisecond:
  "(case analyze_code ascii_db
           \<lparr>req_code = str ''const a = 1'', req_language = str ''javascript'',
            req_context = None, req_user_id = Some (str ''u1''), req_session_id = None\<rparr>
           (1700000000 + 1 / 8192) (str ''2023-11-14T22:13:20.000122'')
           (\<lparr>analysis_storage = [], video_generation_status = []\<rparr> :: unit app_state) of
      (response1, st1) \<Rightarrow>
    (case analyze_code ascii_db
           \<lparr>req_code = str ''let b = 2'', req_language = str ''javascript'',
            req_context = None, req_user_id = Some (str ''u2''), req_session_id = None\<rparr>
           (1700000000 + 3 / 8192) (str ''2023-11-14T22:13:20.000366'') st1 of
      (response2, st2) \<Rightarrow>
        a_analysis_id (projr response1) = str ''analysis_1700000000000'' \<and>
        a_analysis_id (projr response2) = str ''analysis_1700000000000'' \<and>
        map fst (analysis_storage st2) = [str ''analysis_1700000000000''] \<and>
        map (r_code \<circ> snd) (analysis_storage st2) = [str ''let b = 2''])) \<and>
   (case generate_video
           \<lparr>vr_analysis_id = str ''analysis_1'', vr_change_type = str ''styling'',
            vr_code_snippet = [], vr_explanation = [], vr_affected_elements = [],
            vr_title = Some (str ''first'')\<rparr>
           (1700000000 + 1 / 8192)
           (\<lparr>analysis_storage = [], video_generation_status = []\<rparr> :: unit app_state) of
      (response1, st1, video_id1) \<Rightarrow>
    (case generate_video
           \<lparr>vr_analysis_id = str ''analysis_2'', vr_change_type = str ''styling'',
            vr_code_snippet = [], vr_explanation = [], vr_affected_elements = [],
            vr_title = Some (str ''second'')\<rparr>
           (1700000000 + 3 / 8192) st1 of
      (response2, st2, video_id2) \<Rightarrow>
        video_id1 = str ''video_1700000000000'' \<and> video_id2 = str ''video_1700000000000'' \<and>
        map fst (video_generation_status st2) = [str ''video_1700000000000''] \<and>
        map (v_title \<circ> snd) (video_generation_status st2) = [str ''second'']))"
  by (simp add: analyze_code_def generate_video_def Let_def CodeAnalysisResponse_def
        millis_same_ms str_of_int_ms str_def)
theorem ids_collide_within_a_millisecond_witness:
  "a_analysis_id (projr (fst (analyze_code ascii_db
       \<lparr>req_code = str ''const a = 1'', req_language = str ''javascript'',
        req_context = None, req_user_id = Some (str ''u1''), req_session_id = None\<rparr>
       (1700000000 + 1 / 8192) (str ''2023-11-14T22:13:20.000122'')
       (\<lparr>analysis_storage = [], video_generation_status = []\<rparr> :: unit app_state))))
   = a_analysis_id (projr (fst (analyze_code ascii_db
       \<lparr>req_code = str ''let b = 2'', req_language = str ''javascript'',
        req_context = None, req_user_id = Some (str ''u2''), req_session_id = None\<rparr>
       (1700000000 + 3 / 8192) (str ''2023-11-14T22:13:20.000366'')
       (snd (analyze_code ascii_db
          \<lparr>req_code = str ''const a = 1'', req_language = str ''javascript'',
           req_context = None, req_user_id = Some (str ''u1''), req_session_id = None\<rparr>
          (1700000000 + 1 / 8192) (str ''2023-11-14T22:13:20.000122'')
          (\<lparr>analysis_storage = [], video_generation_status = []\<rparr> :: unit app_state))))))"
  using ids_collide_within_a_millisecond by (simp add: split_beta)

section \<open>The event-handler extractor on concrete inputs\<close>

text \<open>
  Claim C7.  For \<^verbatim>\<open>onClick={go}\<close> the extractor returns the handler name \<open>onClick\<close>.
  The pattern also admits white space before the \<open>=\<close>, and only the \<open>=\<close> is removed
  from the matched text: for \<^verbatim>\<open>onClick = {go}\<close> the returned element is \<open>onClick\<close>
  followed by a space, which is not a handler name, and a code with both spellings
  returns two elements for the one handler.
\<close>

theorem extract_event_handlers_keeps_space:
  "extract_event_handlers ascii_db (str ''<button onClick={go}>'') (str ''javascript'')
     = [str ''onClick''] \<and>
   extract_event_handlers ascii_db (str ''<button onClick = {go}>'') (str ''javascript'')
     = [str ''onClick ''] \<and>
   set (extract_event_handlers ascii_db
          (str ''<a onClick={f}/><b onClick = {f}/>'') (str ''javascript''))
     = {str ''onClick'', str ''onClick ''}"
  by code_simp

section \<open>Properties of the user history\<close>

lemma analyze_code_snd:
  obtains rcd where
    "snd (analyze_code U request t now st)
       = st\<lparr>analysis_storage :=
              dict_set (analysis_storage st) (str ''analysis_'' @ str_of_int (millis t)) rcd\<rparr>"
    "r_timestamp rcd = now" "r_user_id rcd = req_user_id request"
    "r_analysis_id rcd = str ''analysis_'' @ str_of_int (millis t)"
  by (simp add: analyze_code_def Let_def)

lemma example_millis:
  "millis (1740800000001 / 1024) = 1700000000000"
  "millis (1782579200001049 / 1048576) = 1700000000001"
  "millis (6800000005 / 4) = 1700000001250"
  by code_simp+

lemma example_ids:
  "str_of_int 1700000000000 = map of_char ''1700000000000''"
  "str_of_int 1700000000001 = map of_char ''1700000000001''"
  "str_of_int 1700000001250 = map of_char ''1700000001250''"
  by code_simp+

lemma history_example_shape:
  obtains r1 r2 r3 where
    "analysis_storage history_example =
       [(str ''analysis_1700000000000'', r1), (str ''analysis_1700000000001'', r2),
        (str ''analysis_1700000001250'', r3)]"
    "r_timestamp r1 = str ''2023-11-14T22:13:20.001000''"
    "r_timestamp r2 = str ''2023-11-14T22:13:20.001000''"
    "r_timestamp r3 = str ''2023-11-14T22:13:21.250010''"
    "r_user_id r1 = Some (str ''u1'')" "r_user_id r2 = Some (str ''u1'')"
    "r_user_id r3 = Some (str ''u1'')"
proof -
  let ?s1 = "snd (analyze_code ascii_db (example_request ''function App() {}'')
            (1700000000 + 1 / 1024) (str ''2023-11-14T22:13:20.001000'') empty_state)"
  let ?s2 = "snd (analyze_code ascii_db (example_request ''useState(0)'')
            (1700000000 + 1049 / 1048576) (str ''2023-11-14T22:13:20.001000'') ?s1)"
  obtain r1 where raw1: "?s1 = empty_state\<lparr>analysis_storage :=
         dict_set (analysis_storage empty_state)
           (str ''analysis_'' @ str_of_int (millis (1700000000 + 1 / 1024))) r1\<rparr>"
     and r1: "r_timestamp r1 = str ''2023-11-14T22:13:20.001000''"
       "r_user_id r1 = req_user_id (example_request ''function App() {}'')"
    by (rule analyze_code_snd)
  have 1: "analysis_storage ?s1 = [(str ''analysis_1700000000000'', r1)]"
    unfolding raw1 by (simp add: example_millis example_ids str_def empty_state_def)
  obtain r2 where raw2: "?s2 = ?s1\<lparr>analysis_storage :=
         dict_set (analysis_storage ?s1)
           (str ''analysis_'' @ str_of_int (millis (1700000000 + 1049 / 1048576))) r2\<rparr>"
     and r2: "r_timestamp r2 = str ''2023-11-14T22:13:20.001000''"
       "r_user_id r2 = req_user_id (example_request ''useState(0)'')"
    by (rule analyze_code_snd)
  have 2: "analysis_storage ?s2
         = [(str ''analysis_1700000000000'', r1), (str ''analysis_1700000000001'', r2)]"
    unfolding raw2 unfolding 1 by (simp add: example_millis example_ids str_def)
  obtain r3 where raw3: "history_example = ?s2\<lparr>analysis_storage :=
         dict_set (analysis_storage ?s2)
           (str ''analysis_'' @ str_of_int (millis (1700000001 + 1 / 4))) r3\<rparr>"
     and r3: "r_timestamp r3 = str ''2023-11-14T22:13:21.250010''"
       "r_user_id r3 = req_user_id (example_request ''<b onClick={f}/>'')"
    unfolding history_example_def by (rule analyze_code_snd)
  have 3: "analysis_storage history_example
         = [(str ''analysis_1700000000000'', r1), (str ''analysis_1700000000001'', r2),
            (str ''analysis_1700000001250'', r3)]"
    unfolding raw3 unfolding 2 by (simp add: example_millis example_ids str_def)
  have u: "r_user_id r1 = Some (str ''u1'')" "r_user_id r2 = Some (str ''u1'')"
    "r_user_id r3 = Some (str ''u1'')"
    using r1 r2 r3 by (simp_all add: example_request_def)
  show ?thesis
    using that [OF 3 r1(1) r2(1) r3(1) u] .
qed

lemma history_example_negative_limit:
  "length (h_analyses (get_user_history (str ''u1'') (- 1) history_example)) = 2"
proof -
  obtain r1 r2 r3 where
    "analysis_storage history_example =
       [(str ''analysis_1700000000000'', r1), (str ''analysis_1700000000001'', r2),
        (str ''analysis_1700000001250'', r3)]"
    "r_user_id r1 = Some (str ''u1'')" "r_user_id r2 = Some (str ''u1'')"
    "r_user_id r3 = Some (str ''u1'')"
    by (rule history_example_shape)
  then show ?thesis
    by (simp add: get_user_history_def Let_def dict_values_def sort_reverse_def slice_to_def)
qed

lemma history_example_ties:
  "\<not> strictly_descending (h_analyses (get_user_history (str ''u1'') 3 history_example))"
proof -
  obtain r1 r2 r3 where
    "analysis_storage history_example =
       [(str ''analysis_1700000000000'', r1), (str ''analysis_1700000000001'', r2),
        (str ''analysis_1700000001250'', r3)]"
    "r_timestamp r1 = str ''2023-11-14T22:13:20.001000''"
    "r_timestamp r2 = str ''2023-11-14T22:13:20.001000''"
    "r_timestamp r3 = str ''2023-11-14T22:13:21.250010''"
    "r_user_id r1 = Some (str ''u1'')" "r_user_id r2 = Some (str ''u1'')"
    "r_user_id r3 = Some (str ''u1'')"
    by (rule history_example_shape)
  then show ?thesis
    by (simp add: get_user_history_def Let_def dict_values_def sort_reverse_def slice_to_def
          strictly_descending_def str_def)
qed

lemma descending_sort_reverse: "sorted_wrt (\<lambda>a b. f b \<le> f a) (sort_reverse f xs)"
proof -
  have "sorted (map f (sort_key f (rev xs)))"
    by (rule sorted_sort_key)
  then have "sorted_wrt (\<lambda>a b. f a \<le> f b) (sort_key f (rev xs))"
    by (simp add: sorted_map)
  then show ?thesis
    unfolding sort_reverse_def by (simp add: sorted_wrt_rev)
qed

lemma slice_to_take: "\<exists>n. slice_to limit xs = take n xs"
  by (auto simp: slice_to_def)

lemma set_sort_reverse: "set (sort_reverse f xs) = set xs"
  by (simp add: sort_reverse_def)

text \<open>
  Claim C8, as amended.  For a limit that is not negative the history has at most
  \<open>limit\<close> records.  For every limit the records returned are records of the user
  from the store, in descending order of timestamp (records with equal timestamps may
  stand side by side).
\<close>

theorem get_user_history_limit_and_order:
  "descending (h_analyses (get_user_history user_id limit st)) \<and>
   (\<forall>r \<in> set (h_analyses (get_user_history user_id limit st)).
      r_user_id r = Some user_id \<and> r \<in> set (dict_values (analysis_storage st))) \<and>
   (0 \<le> limit \<longrightarrow> int (length (h_analyses (get_user_history user_id limit st))) \<le> limit)"
proof -
  let ?xs = "sort_reverse r_timestamp
               (filter (\<lambda>analysis. r_user_id analysis = Some user_id)
                  (dict_values (analysis_storage st)))"
  have h: "h_analyses (get_user_history user_id limit st) = slice_to limit ?xs"
    by (simp add: get_user_history_def Let_def)
  obtain n where n: "slice_to limit ?xs = take n ?xs"
    using slice_to_take by blast
  have d: "descending (slice_to limit ?xs)"
    unfolding n descending_def by (rule sorted_wrt_take) (rule descending_sort_reverse)
  have m: "\<forall>r \<in> set (slice_to limit ?xs).
      r_user_id r = Some user_id \<and> r \<in> set (dict_values (analysis_storage st))"
    unfolding n
  proof
    fix r assume "r \<in> set (take n ?xs)"
    then have "r \<in> set ?xs" by (rule in_set_takeD)
    then show "r_user_id r = Some user_id \<and> r \<in> set (dict_values (analysis_storage st))"
      by (simp add: set_sort_reverse)
  qed
  have l: "0 \<le> limit \<longrightarrow> int (length (slice_to limit ?xs)) \<le> limit"
  proof
    assume l: "0 \<le> limit"
    then have "length (slice_to limit ?xs) \<le> nat limit"
      by (simp add: slice_to_def)
    then show "int (length (slice_to limit ?xs)) \<le> limit"
      using l by linarith
  qed
  show ?thesis
    unfolding h using d m l by (intro conjI)
qed

theorem get_user_history_limit_and_order_witness:
  "(0::int) \<le> 2 \<and>
   int (length (h_analyses (get_user_history (str ''u1'') 2 history_example))) \<le> 2 \<and>
   descending (h_analyses (get_user_history (str ''u1'') 2 history_example)) \<and>
   length (h_analyses (get_user_history (str ''u1'') 2 history_example)) = 2"
proof -
  obtain r1 r2 r3 where
    "analysis_storage history_example =
       [(str ''analysis_1700000000000'', r1), (str ''analysis_1700000000001'', r2),
        (str ''analysis_1700000001250'', r3)]"
    "r_user_id r1 = Some (str ''u1'')" "r_user_id r2 = Some (str ''u1'')"
    "r_user_id r3 = Some (str ''u1'')"
    by (rule history_example_shape)
  then have "length (h_analyses (get_user_history (str ''u1'') 2 history_example)) = 2"
    by (simp add: get_user_history_def Let_def dict_values_def sort_reverse_def slice_to_def)
  then show ?thesis
    using get_user_history_limit_and_order [of "str ''u1''" 2 history_example] by simp
qed

text \<open>
  The claim as stated fails on the store \<open>history_example\<close>: with the limit \<open>-1\<close> the
  history of \<open>u1\<close> has two records, more than the limit, and with the limit 3 the
  records are not in strictly descending order, two of them having the same timestamp.
\<close>

theorem get_user_history_counterexample:
  "\<not> int (length (h_analyses (get_user_history (str ''u1'') (- 1) history_example))) \<le> - 1 \<and>
   \<not> strictly_descending (h_analyses (get_user_history (str ''u1'') 3 history_example))"
  using history_example_negative_limit history_example_ties by simp
section \<open>The life cycle of a video job\<close>

lemma py_range_checkpoints: "py_range 20 100 20 = [20, 40, 60, 80]"
  by code_simp

text \<open>
  A job whose task runs from start to end, with no other job stored under its identifier
  meanwhile, passes through \<open>pending\<close> with progress 0, \<open>generating\<close> with progress
  0, 10, 20, 40, 60 and 80, and \<open>completed\<close> with progress 100; then its task has
  finished and changes nothing any more.
\<close>

lemma job_lifecycle_alone:
  assumes "generate_video request t st = (response, st1, video_id)"
    and "generate_video_background video_id now (video_generation_status st1) = (task, trace)"
  shows "map (job_view video_id) (video_generation_status st1 # trace)
           = [Some (str ''pending'', 0), Some (str ''generating'', 0),
              Some (str ''generating'', 10), Some (str ''generating'', 20),
              Some (str ''generating'', 40), Some (str ''generating'', 60),
              Some (str ''generating'', 80), Some (str ''completed'', 100)]"
    and "t_pc task = Finished"
    and "resume now' task store = (task, [])"
proof -
  obtain v where v: "map_of (video_generation_status st1) video_id = Some v"
    "v_status v = str ''pending''" "v_progress v = 0"
    using assms(1) by (auto simp: generate_video_def Let_def map_of_dict_set)
  have run: "generate_video_background video_id now (video_generation_status st1)
               = (task, trace)"
    by (rule assms(2))
  have "fst (generate_video_background video_id now (video_generation_status st1))
          = \<lparr>t_video_id = video_id, t_pc = Finished\<rparr>"
    using v(1)
    by (simp add: generate_video_background_def py_range_checkpoints resume_def run_block_def
          set_entry_def map_of_dict_set)
  then have task: "task = \<lparr>t_video_id = video_id, t_pc = Finished\<rparr>"
    unfolding run by simp
  have "map (job_view video_id)
          (snd (generate_video_background video_id now (video_generation_status st1)))
        = [Some (str ''generating'', v_progress v), Some (str ''generating'', 10),
           Some (str ''generating'', 20), Some (str ''generating'', 40),
           Some (str ''generating'', 60), Some (str ''generating'', 80),
           Some (str ''completed'', 100)]"
    using v(1)
    by (simp add: generate_video_background_def py_range_checkpoints resume_def run_block_def
          set_entry_def map_of_dict_set job_view_def mark_completed_def)
  then show "map (job_view video_id) (video_generation_status st1 # trace)
           = [Some (str ''pending'', 0), Some (str ''generating'', 0),
              Some (str ''generating'', 10), Some (str ''generating'', 20),
              Some (str ''generating'', 40), Some (str ''generating'', 60),
              Some (str ''generating'', 80), Some (str ''completed'', 100)]"
    unfolding run using v by (simp add: job_view_def)
  show "t_pc task = Finished"
    by (simp add: task)
  show "resume now' task store = (task, [])"
    by (simp add: task resume_def)
qed

text \<open>
  Claim C5.  In the run \<open>collision_run\<close> two jobs are started in the same millisecond
  and get the same \<open>video_id\<close>.  The status queries for that identifier, one after
  each event, show the progress fall from 10 to 0 when the second job replaces the
  first, and show two different \<open>completed\<close> snapshots, the second task completing
  the job again after the first.  Statement by statement, the last resumption of the
  second task first writes the progress 80 into the completed job and then completes it
  again.
\<close>

theorem video_job_collision_run:
  "map (snapshot (str ''video_1700000000000'')) (serve_all collision_run empty_server)
     = [Some (str ''pending'', 0, None),
        Some (str ''generating'', 10, None),
        Some (str ''pending'', 0, None),
        Some (str ''generating'', 10, None),
        Some (str ''generating'', 20, None),
        Some (str ''generating'', 20, None),
        Some (str ''generating'', 40, None),
        Some (str ''generating'', 40, None),
        Some (str ''generating'', 60, None),
        Some (str ''generating'', 60, None),
        Some (str ''completed'', 100, Some (str ''2023-11-14T22:13:24.000200'')),
        Some (str ''completed'', 100, Some (str ''2023-11-14T22:13:24.000450''))] \<and>
   map (job_view (str ''video_1700000000000''))
     (snd (resume (str ''2023-11-14T22:13:24.000450'')
             (tasks (last (serve_all (butlast collision_run) empty_server)) ! 1)
             (video_generation_status
                (stores (last (serve_all (butlast collision_run) empty_server))))))
     = [Some (str ''completed'', 80), Some (str ''completed'', 100)]"
  by code_simp

end
